theory Spec2Isabelle
  imports Complex_Main "HOL-Library.Sublist"
begin

section \<open>JavaScript values used by renderer.js\<close>

text \<open>
  A JavaScript string is modelled as a \<^typ>\<open>string\<close>: the list of its code units, for
  code units below 256. A JavaScript number is a \<open>number\<close>: \<open>NaN\<close>, the two
  infinities, or a finite value kept as the exact rational it denotes. Overflow of a
  parsed literal to \<open>Infinity\<close> is modelled; rounding of the mantissa to 53 bits and
  the sign of zero are not.
\<close>

datatype number = NaN | NegInf | Fin rat | PosInf

datatype error = TypeError

text \<open>\<open>isNaN(val)\<close> on a number.\<close>

fun isNaN :: "number \<Rightarrow> bool" where
  "isNaN NaN = True"
| "isNaN _ = False"

text \<open>
  The relational operators \<open>a > b\<close> and \<open>a < b\<close> on numbers: false when an operand
  is \<open>NaN\<close>.
\<close>

fun num_gt :: "number \<Rightarrow> number \<Rightarrow> bool" where
  "num_gt NaN _ = False"
| "num_gt _ NaN = False"
| "num_gt NegInf _ = False"
| "num_gt (Fin a) NegInf = True"
| "num_gt (Fin a) (Fin b) = (a > b)"
| "num_gt (Fin a) PosInf = False"
| "num_gt PosInf PosInf = False"
| "num_gt PosInf _ = True"

fun num_lt :: "number \<Rightarrow> number \<Rightarrow> bool" where
  "num_lt a b = num_gt b a"

text \<open>\<open>Math.max(a, b)\<close>: \<open>NaN\<close> if either argument is.\<close>

fun mathMax2 :: "number \<Rightarrow> number \<Rightarrow> number" where
  "mathMax2 NaN _ = NaN"
| "mathMax2 _ NaN = NaN"
| "mathMax2 a b = (if num_gt b a then b else a)"

text \<open>\<open>Math.max(...xs)\<close>: \<open>-Infinity\<close> for no arguments.\<close>

definition mathMax :: "number list \<Rightarrow> number" where
  "mathMax xs = foldl mathMax2 NegInf xs"

text \<open>
  \<open>a * b\<close>, \<open>a / b\<close> and \<open>a - b\<close> on numbers. A zero is taken as \<open>+0\<close>
  where its sign would decide the sign of an infinite result.
\<close>

fun num_sign_neg :: "number \<Rightarrow> bool" where
  "num_sign_neg NegInf = True"
| "num_sign_neg (Fin a) = (a < 0)"
| "num_sign_neg _ = False"

definition signed_inf :: "bool \<Rightarrow> number" where
  "signed_inf neg = (if neg then NegInf else PosInf)"

fun num_mul :: "number \<Rightarrow> number \<Rightarrow> number" where
  "num_mul NaN _ = NaN"
| "num_mul _ NaN = NaN"
| "num_mul (Fin a) (Fin b) = Fin (a * b)"
| "num_mul (Fin a) b = (if a = 0 then NaN else signed_inf (num_sign_neg (Fin a) \<noteq> num_sign_neg b))"
| "num_mul a (Fin b) = (if b = 0 then NaN else signed_inf (num_sign_neg a \<noteq> num_sign_neg (Fin b)))"
| "num_mul a b = signed_inf (num_sign_neg a \<noteq> num_sign_neg b)"

fun num_div :: "number \<Rightarrow> number \<Rightarrow> number" where
  "num_div NaN _ = NaN"
| "num_div _ NaN = NaN"
| "num_div (Fin a) (Fin b) =
     (if b = 0 then (if a = 0 then NaN else signed_inf (a < 0)) else Fin (a / b))"
| "num_div (Fin a) b = Fin 0"
| "num_div a (Fin b) = signed_inf (num_sign_neg a \<noteq> num_sign_neg (Fin b))"
| "num_div a b = NaN"

fun num_sub :: "number \<Rightarrow> number \<Rightarrow> number" where
  "num_sub NaN _ = NaN"
| "num_sub _ NaN = NaN"
| "num_sub (Fin a) (Fin b) = Fin (a - b)"
| "num_sub (Fin a) b = signed_inf (\<not> num_sign_neg b)"
| "num_sub a (Fin b) = a"
| "num_sub a b = (if a = b then NaN else a)"

section \<open>String primitives\<close>

text \<open>
  White space and line terminators of ECMAScript among the code units below 256:
  TAB, LF, VT, FF, CR, SP and NBSP. \<open>\s\<close> in a regular expression and
  \<open>String.prototype.trim\<close> use the same set.
\<close>

definition is_space :: "char \<Rightarrow> bool" where
  "is_space c = (let n = (of_char c :: nat) in (9 \<le> n \<and> n \<le> 13) \<or> n = 32 \<or> n = 160)"

text \<open>\<open>\d\<close>: the ten ASCII digits.\<close>

definition is_digit :: "char \<Rightarrow> bool" where
  "is_digit c = (let n = (of_char c :: nat) in 48 \<le> n \<and> n \<le> 57)"

definition digit_val :: "char \<Rightarrow> nat" where
  "digit_val c = of_char c - 48"

text \<open>The mathematical value of a string of decimal digits.\<close>

definition digits_val :: "string \<Rightarrow> nat" where
  "digits_val ds = foldl (\<lambda>a c. 10 * a + digit_val c) 0 ds"

text \<open>\<open>s.trim()\<close>.\<close>

definition trim :: "string \<Rightarrow> string" where
  "trim s = rev (dropWhile is_space (rev (dropWhile is_space s)))"

text \<open>\<open>s.split(",")\<close>: the empty string gives one empty token.\<close>

fun split_comma :: "string \<Rightarrow> string list" where
  "split_comma [] = [[]]"
| "split_comma (c # cs) =
     (if c = CHR '','' then [] # split_comma cs
      else (case split_comma cs of
              [] \<Rightarrow> [[c]]
            | t # ts \<Rightarrow> (c # t) # ts))"

section \<open>parseFloat\<close>

text \<open>
  \<open>parseFloat(s)\<close>: skip leading white space, take the longest prefix that is a
  \<open>StrDecimalLiteral\<close> (an optional sign, then \<open>Infinity\<close> or decimal digits with
  an optional fraction and an optional exponent), and return its value; \<open>NaN\<close> when
  no prefix is one.
\<close>

definition split_sign :: "string \<Rightarrow> bool \<times> string" where
  "split_sign t =
     (case t of
        [] \<Rightarrow> (False, t)
      | c # r \<Rightarrow> if c = CHR ''-'' then (True, r)
                 else if c = CHR ''+'' then (False, r)
                 else (False, t))"

text \<open>The \<open>ExponentPart\<close> at the start of a string, 0 when there is none.\<close>

definition exponent_part :: "string \<Rightarrow> int" where
  "exponent_part r =
     (case r of
        [] \<Rightarrow> 0
      | c # r' \<Rightarrow>
          if c = CHR ''e'' \<or> c = CHR ''E'' then
            (let (neg, d) = split_sign r'; ds = takeWhile is_digit d
             in if ds = [] then 0
                else if neg then - int (digits_val ds) else int (digits_val ds))
          else 0)"

definition pow10 :: "int \<Rightarrow> rat" where
  "pow10 e = (if 0 \<le> e then 10 ^ nat e else 1 / 10 ^ nat (- e))"

text \<open>
  The Number value of a finite real: magnitudes from \<open>2^1024 - 2^970\<close> on round to an
  infinity.
\<close>

definition number_value :: "rat \<Rightarrow> number" where
  "number_value v =
     (if 2 ^ 1024 - 2 ^ 970 \<le> \<bar>v\<bar> then signed_inf (v < 0) else Fin v)"

definition parseFloat :: "string \<Rightarrow> number" where
  "parseFloat s =
     (let (neg, u) = split_sign (dropWhile is_space s)
      in if prefix ''Infinity'' u then signed_inf neg
         else
           (let ip = takeWhile is_digit u;
                r1 = dropWhile is_digit u;
                (fp, r2) = (case r1 of
                              [] \<Rightarrow> ([], r1)
                            | c # r \<Rightarrow> if c = CHR ''.''
                                       then (takeWhile is_digit r, dropWhile is_digit r)
                                       else ([], r1))
            in if ip = [] \<and> fp = [] then NaN
               else
                 (let m = of_nat (digits_val ip) + of_nat (digits_val fp) / 10 ^ length fp;
                      v = m * pow10 (exponent_part r2)
                  in number_value (if neg then - v else v))))"

section \<open>parseInputValues\<close>

text \<open>
  The result object of \<open>parseInputValues\<close>, with the text last passed to
  \<open>displayError\<close> (\<open>errorMessage\<close>; the empty string clears the message).
\<close>

record parse_result =
  dataValues :: "number list"
  labels :: "string list"
  hasError :: bool
  errorMessage :: string

text \<open>
  The statements of the \<open>try\<close> block up to the length check: no operation in them
  throws on a string, so the block yields the two lists.
\<close>

definition parse_lists :: "string \<Rightarrow> string \<Rightarrow> error + (number list \<times> string list)" where
  "parse_lists valueText labelText =
     (let dataValues0 = filter (\<lambda>val. \<not> isNaN val)
                          (map (\<lambda>x. parseFloat (trim x)) (split_comma valueText));
          dataValues1 = map (\<lambda>val. mathMax2 (Fin 0) val) dataValues0;
          labels1 = map trim (split_comma labelText)
      in Inr (dataValues1, labels1))"

definition parseInputValues :: "string \<Rightarrow> string \<Rightarrow> parse_result" where
  "parseInputValues valueText labelText =
     (case parse_lists valueText labelText of
        Inr (dvs, ls) \<Rightarrow>
          if length dvs \<noteq> length ls then
            \<lparr>dataValues = [], labels = [], hasError = True,
             errorMessage = ''Error: Number of values must match the number of labels.''\<rparr>
          else \<lparr>dataValues = dvs, labels = ls, hasError = False, errorMessage = ''''\<rparr>
      | Inl e \<Rightarrow>
          \<lparr>dataValues = [], labels = [], hasError = True,
           errorMessage = ''Invalid input. Please ensure all values are numbers.''\<rparr>)"

section \<open>Colours\<close>

text \<open>
  The value of an expression inside a template literal. An integer prints as its decimal
  numeral (the integers printed here, colour channels and hues, are far below
  \<open>10^21\<close>, from where on JavaScript prints an exponent). The digits of a number that
  is not an integer depend on its binary floating-point representation; they are left
  to the parameter \<open>fmt\<close>.
\<close>

definition digit_char :: "nat \<Rightarrow> char" where
  "digit_char d = char_of (48 + d)"

fun natToString :: "nat \<Rightarrow> string" where
  "natToString n =
     (if n < 10 then [digit_char n]
      else natToString (n div 10) @ [digit_char (n mod 10)])"

declare natToString.simps [simp del]

definition intToString :: "int \<Rightarrow> string" where
  "intToString i = (if i < 0 then CHR ''-'' # natToString (nat (- i)) else natToString (nat i))"

definition numberToString :: "(rat \<Rightarrow> string) \<Rightarrow> rat \<Rightarrow> string" where
  "numberToString fmt q = (if of_int \<lfloor>q\<rfloor> = q then intToString \<lfloor>q\<rfloor> else fmt q)"

text \<open>\<open>Math.round\<close> on a finite value: halves round up.\<close>

definition mathRound :: "rat \<Rightarrow> int" where
  "mathRound x = \<lfloor>x + 1 / 2\<rfloor>"

record rgb =
  rgb_r :: nat
  rgb_g :: nat
  rgb_b :: nat

definition is_hex :: "char \<Rightarrow> bool" where
  "is_hex c =
     (let n = (of_char c :: nat)
      in (48 \<le> n \<and> n \<le> 57) \<or> (97 \<le> n \<and> n \<le> 102) \<or> (65 \<le> n \<and> n \<le> 70))"

definition hex_digit_val :: "char \<Rightarrow> nat" where
  "hex_digit_val c =
     (let n = (of_char c :: nat)
      in if n \<le> 57 then n - 48 else if 97 \<le> n then n - 87 else n - 55)"

text \<open>\<open>parseInt(s, 16)\<close> on a string of hexadecimal digits.\<close>

definition parseInt16 :: "string \<Rightarrow> nat" where
  "parseInt16 ds = foldl (\<lambda>a c. 16 * a + hex_digit_val c) 0 ds"

text \<open>
  \<open>hexToRgb\<close>: the regular expression \<open>/^#?([a-f\d]{2})([a-f\d]{2})([a-f\d]{2})$/i\<close>
  accepts an optional \<open>#\<close> and then exactly six hexadecimal digits; \<open>None\<close> is
  \<open>null\<close>.
\<close>

definition hexToRgb :: "string \<Rightarrow> rgb option" where
  "hexToRgb hex =
     (let h = (case hex of [] \<Rightarrow> hex | c # r \<Rightarrow> if c = CHR ''#'' then r else hex)
      in if length h = 6 \<and> list_all is_hex h
         then Some \<lparr>rgb_r = parseInt16 (take 2 h),
                    rgb_g = parseInt16 (take 2 (drop 2 h)),
                    rgb_b = parseInt16 (take 2 (drop 4 h))\<rparr>
         else None)"

text \<open>
  One pass of the loop of \<open>generateGradientColors\<close>. The arithmetic is exact; at the
  two ends of the gradient, which are whole numbers, it is the floating-point result.
\<close>

definition gradient_ratio :: "nat \<Rightarrow> nat \<Rightarrow> rat" where
  "gradient_ratio steps i = (if steps = 1 then 0 else of_nat i / (of_nat steps - 1))"

definition gradient_channel :: "nat \<Rightarrow> nat \<Rightarrow> rat \<Rightarrow> int" where
  "gradient_channel a b ratio = mathRound (of_nat a + (of_nat b - of_nat a) * ratio)"

definition gradient_color :: "rgb \<Rightarrow> rgb \<Rightarrow> nat \<Rightarrow> nat \<Rightarrow> string" where
  "gradient_color c1 c2 steps i =
     (let ratio = gradient_ratio steps i;
          r = gradient_channel (rgb_r c1) (rgb_r c2) ratio;
          g = gradient_channel (rgb_g c1) (rgb_g c2) ratio;
          b = gradient_channel (rgb_b c1) (rgb_b c2) ratio
      in ''rgb('' @ intToString r @ '', '' @ intToString g @ '', '' @ intToString b @ '')'')"

text \<open>
  \<open>generateGradientColors\<close>: reading \<open>c1.r\<close> or \<open>c2.r\<close> of a \<open>null\<close> throws a
  TypeError in the first pass of the loop; with no pass nothing is read.
\<close>

definition generateGradientColors :: "string \<Rightarrow> string \<Rightarrow> nat \<Rightarrow> error + string list" where
  "generateGradientColors color1 color2 steps =
     (case (hexToRgb color1, hexToRgb color2) of
        (Some c1, Some c2) \<Rightarrow> Inr (map (gradient_color c1 c2 steps) [0..<steps])
      | _ \<Rightarrow> if steps = 0 then Inr [] else Inl TypeError)"

definition rainbow_hue :: "nat \<Rightarrow> nat \<Rightarrow> rat" where
  "rainbow_hue count i = of_nat (i * 360) / of_nat count"

definition generateRainbowColors :: "(rat \<Rightarrow> string) \<Rightarrow> nat \<Rightarrow> string list" where
  "generateRainbowColors fmt count =
     map (\<lambda>i. ''hsl('' @ numberToString fmt (rainbow_hue count i) @ '', 70%, 50%)'')
       [0..<count]"

text \<open>The values of the four colour controls of the page.\<close>

record controls =
  colorMode :: string
  primaryColor :: string
  secondaryColor :: string
  customColors :: string

text \<open>\<open>xs[i]\<close> for an index that may be out of range: \<open>None\<close> is \<open>undefined\<close>.\<close>

definition index_opt :: "'a list \<Rightarrow> nat \<Rightarrow> 'a option" where
  "index_opt xs i = (if i < length xs then Some (xs ! i) else None)"

text \<open>
  \<open>customColorList[i % customColorList.length]\<close>: a modulus of zero gives \<open>NaN\<close>,
  and the element at \<open>NaN\<close> is \<open>undefined\<close>.
\<close>

definition custom_pick :: "string list \<Rightarrow> nat \<Rightarrow> string option" where
  "custom_pick customColorList i =
     (if length customColorList = 0 then None
      else index_opt customColorList (i mod length customColorList))"

text \<open>\<open>generateColors\<close>: an entry of the result is a string, or \<open>None\<close> for \<open>undefined\<close>.\<close>

definition generateColors ::
  "(rat \<Rightarrow> string) \<Rightarrow> controls \<Rightarrow> nat \<Rightarrow> error + string option list" where
  "generateColors fmt ctl count =
     (let mode = colorMode ctl; primary = primaryColor ctl; secondary = secondaryColor ctl
      in if mode = ''single'' then Inr (replicate count (Some primary))
         else if mode = ''gradient'' then
           (case generateGradientColors primary secondary count of
              Inl e \<Rightarrow> Inl e
            | Inr cs \<Rightarrow> Inr (map Some cs))
         else if mode = ''rainbow'' then Inr (map Some (generateRainbowColors fmt count))
         else if mode = ''custom'' then
           (let customColorList = map trim (split_comma (customColors ctl))
            in if length customColorList \<ge> count
               then Inr (map Some (take count customColorList))
               else Inr (map (custom_pick customColorList) [0..<count]))
         else Inr (replicate count (Some primary)))"

section \<open>Bar geometry: drawGraph and exportSVG\<close>

text \<open>
  A bar: the arguments of the \<open>fillRect\<close> call of \<open>drawGraph\<close>, or the attributes of
  the \<open>rect\<close> element of \<open>exportSVG\<close>, with the fill colour \<open>barColors[i]\<close>.
\<close>

record rect =
  rect_x :: rat
  rect_y :: number
  rect_width :: rat
  rect_height :: number
  rect_fill :: "string option"

text \<open>
  The loop of \<open>drawGraph\<close> over the bars, from index \<open>i\<close> and offset \<open>xOffset\<close>;
  \<open>base\<close> is \<open>canvas.height - bottomPadding\<close>.
\<close>

fun drawGraph_bars ::
  "rat \<Rightarrow> rat \<Rightarrow> rat \<Rightarrow> number \<Rightarrow> string option list \<Rightarrow> nat \<Rightarrow> rat \<Rightarrow> number list \<Rightarrow> rect list" where
  "drawGraph_bars base barWidth barSpacing scale barColors i xOffset [] = []"
| "drawGraph_bars base barWidth barSpacing scale barColors i xOffset (v # vs) =
     (let barHeight = num_mul v scale
      in \<lparr>rect_x = xOffset,
          rect_y = num_sub (Fin base) barHeight,
          rect_width = barWidth,
          rect_height = barHeight,
          rect_fill = Option.bind (index_opt barColors i) id\<rparr>
         # drawGraph_bars base barWidth barSpacing scale barColors (i + 1)
             (xOffset + (barWidth + barSpacing)) vs)"

text \<open>
  \<open>drawGraph(dataValues, labels)\<close> on a canvas of the given width and height: the bars
  it fills, in order. The background, the label texts and the axes are not part of the
  result.
\<close>

definition drawGraph ::
  "(rat \<Rightarrow> string) \<Rightarrow> controls \<Rightarrow> nat \<Rightarrow> nat \<Rightarrow> number list \<Rightarrow> string list
     \<Rightarrow> error + rect list" where
  "drawGraph fmt ctl canvas_width canvas_height dvs ls =
     (if length dvs = 0 then Inr []
      else
        (let topPadding = 30; bottomPadding = 40; sidePadding = 30;
             graphWidth = of_nat canvas_width - 2 * sidePadding;
             graphHeight = of_nat canvas_height - topPadding - bottomPadding;
             numBars = length dvs;
             barSpacing = 10;
             barWidth0 = (if numBars > 0
                          then (graphWidth - (of_nat numBars - 1) * barSpacing) / of_nat numBars
                          else 0);
             barWidth = (if barWidth0 \<le> 0 then 1 else barWidth0);
             maxValue = mathMax dvs;
             scale = num_div (Fin graphHeight) (if num_gt maxValue (Fin 0) then maxValue else Fin 1)
         in case generateColors fmt ctl (length dvs) of
              Inl e \<Rightarrow> Inl e
            | Inr barColors \<Rightarrow>
                Inr (drawGraph_bars (of_nat canvas_height - bottomPadding) barWidth barSpacing
                       scale barColors 0 sidePadding dvs)))"

text \<open>The loop of \<open>exportSVG\<close> over the bars; \<open>base\<close> is \<open>svgHeight - bottomPadding\<close>.\<close>

fun exportSVG_bars ::
  "rat \<Rightarrow> rat \<Rightarrow> rat \<Rightarrow> number \<Rightarrow> string option list \<Rightarrow> nat \<Rightarrow> rat \<Rightarrow> number list \<Rightarrow> rect list" where
  "exportSVG_bars base barWidth barSpacing scale barColors i xOffset [] = []"
| "exportSVG_bars base barWidth barSpacing scale barColors i xOffset (v # vs) =
     (let barHeight = num_mul v scale;
          y = num_sub (Fin base) barHeight
      in \<lparr>rect_x = xOffset,
          rect_y = y,
          rect_width = barWidth,
          rect_height = barHeight,
          rect_fill = Option.bind (index_opt barColors i) id\<rparr>
         # exportSVG_bars base barWidth barSpacing scale barColors (i + 1)
             (xOffset + (barWidth + barSpacing)) vs)"

text \<open>
  \<open>exportSVG()\<close>, given the result of its call of \<open>parseInputValues\<close>: the \<open>rect\<close>
  elements of the bars, in order. \<open>hasError\<close> is not consulted.
\<close>

definition exportSVG :: "(rat \<Rightarrow> string) \<Rightarrow> controls \<Rightarrow> parse_result \<Rightarrow> error + rect list" where
  "exportSVG fmt ctl parsed =
     (let dvs = dataValues parsed
      in if length dvs = 0 then Inr []
         else
           (let svgWidth = 760; svgHeight = 400;
                topPadding = 30; bottomPadding = 40; sidePadding = 30;
                graphWidth = svgWidth - 2 * sidePadding;
                graphHeight = svgHeight - topPadding - bottomPadding;
                numBars = length dvs;
                barSpacing = 10;
                availableWidthForBars = graphWidth - (of_nat numBars - 1) * barSpacing;
                barWidth = availableWidthForBars / of_nat numBars;
                maxValue = mathMax dvs;
                scale = num_div (Fin graphHeight)
                          (if num_gt maxValue (Fin 0) then maxValue else Fin 1)
            in case generateColors fmt ctl (length dvs) of
                 Inl e \<Rightarrow> Inl e
               | Inr barColors \<Rightarrow>
                   Inr (exportSVG_bars (svgHeight - bottomPadding) barWidth barSpacing
                          scale barColors 0 sidePadding dvs)))"

section \<open>loadConfiguration\<close>








section \<open>A rendering for the closed examples\<close>

text \<open>
  The closed examples print whole numbers only, so the rendering of the other numbers
  is never read in them; this one prints nothing.
\<close>

definition whole_only :: "rat \<Rightarrow> string" where
  "whole_only q = []"

section \<open>Evaluation\<close>

lemma number_value_code [code]:
  "number_value v =
     (if 179769313486231580793728971405303415079934132710037826936173778980444968292764750946649017977587207096330286416692887910946555547851940402630657488671505820681908902000708383676273854845817711531764475730270069855571366959622842914819860834936475292719074168444365510704342711559699508093042880177904174497792 \<le> \<bar>v\<bar>
      then signed_inf (v < 0) else Fin v)"
  unfolding number_value_def by simp

section \<open>Properties of parseInputValues\<close>

lemma split_comma_not_Nil: "split_comma s \<noteq> []"
  by (induction s) (auto split: list.splits)

lemma clamp_not_NaN: "\<not> isNaN x \<Longrightarrow> \<not> isNaN (mathMax2 (Fin 0) x)"
  by (cases x) auto

lemma clamp_not_negative: "\<not> num_lt (mathMax2 (Fin 0) x) (Fin 0)"
  by (cases x) auto

lemma parse_lists_eq:
  "parse_lists valueText labelText =
     Inr (map (mathMax2 (Fin 0))
            (filter (\<lambda>val. \<not> isNaN val)
               (map (\<lambda>x. parseFloat (trim x)) (split_comma valueText))),
          map trim (split_comma labelText))"
  by (simp add: parse_lists_def)

text \<open>
  C2, at the input the code and the claim disagree on: the token \<open>Infinity\<close> parses to
  the number \<open>Infinity\<close>, which \<open>isNaN\<close> does not reject, so the values text
  \<open>10,Infinity,20\<close> keeps three values. With two labels the counts differ and the
  parse fails; with three labels it succeeds and the second value is \<open>Infinity\<close>.
\<close>

theorem parse_keeps_Infinity:
  "parseInputValues ''10,Infinity,20'' ''A,B'' =
     \<lparr>dataValues = [], labels = [], hasError = True,
      errorMessage = ''Error: Number of values must match the number of labels.''\<rparr>
   \<and> parseInputValues ''10,Infinity,20'' ''A,B,C'' =
     \<lparr>dataValues = [Fin 10, PosInf, Fin 20], labels = [''A'', ''B'', ''C''],
      hasError = False, errorMessage = ''''\<rparr>"
  by code_simp

text \<open>
  The token \<open>abc\<close> does not parse and is dropped: the values text \<open>10,abc,20\<close>
  keeps the two values 10 and 20, and the parse succeeds exactly with two labels.
\<close>

lemma parse_drops_unparseable:
  "(hasError (parseInputValues ''10,abc,20'' labelText) \<longleftrightarrow> length (split_comma labelText) \<noteq> 2)
   \<and> (length (split_comma labelText) = 2
        \<longrightarrow> dataValues (parseInputValues ''10,abc,20'' labelText) = [Fin 10, Fin 20])"
proof -
  have v: "map (mathMax2 (Fin 0))
             (filter (\<lambda>val. \<not> isNaN val)
                (map (\<lambda>x. parseFloat (trim x)) (split_comma ''10,abc,20'')))
           = [Fin 10, Fin 20]"
    by code_simp
  show ?thesis
    unfolding parseInputValues_def parse_lists_eq v by auto
qed

text \<open>
  C5: when the number of values that survive the \<open>isNaN\<close> filter differs from the
  number of labels, \<open>parseInputValues\<close> reports the count error and returns no values
  and no labels: nothing is truncated, padded or aligned.
\<close>

theorem parse_count_mismatch:
  assumes "length (filter (\<lambda>val. \<not> isNaN val)
                    (map (\<lambda>x. parseFloat (trim x)) (split_comma valueText)))
           \<noteq> length (split_comma labelText)"
  shows "parseInputValues valueText labelText =
           \<lparr>dataValues = [], labels = [], hasError = True,
            errorMessage = ''Error: Number of values must match the number of labels.''\<rparr>"
  using assms by (simp add: parseInputValues_def parse_lists_eq)

theorem parse_count_mismatch_witness:
  "length (filter (\<lambda>val. \<not> isNaN val)
             (map (\<lambda>x. parseFloat (trim x)) (split_comma ''10,20'')))
     \<noteq> length (split_comma ''A,B,C'')
   \<and> parseInputValues ''10,20'' ''A,B,C'' =
       \<lparr>dataValues = [], labels = [], hasError = True,
        errorMessage = ''Error: Number of values must match the number of labels.''\<rparr>"
proof (rule conjI)
  show h: "length (filter (\<lambda>val. \<not> isNaN val)
                     (map (\<lambda>x. parseFloat (trim x)) (split_comma ''10,20'')))
           \<noteq> length (split_comma ''A,B,C'')"
    by code_simp
  show "parseInputValues ''10,20'' ''A,B,C'' =
       \<lparr>dataValues = [], labels = [], hasError = True,
        errorMessage = ''Error: Number of values must match the number of labels.''\<rparr>"
    by (rule parse_count_mismatch [OF h])
qed

text \<open>
  C6: when the number of values that survive the filter equals the number of labels,
  \<open>parseInputValues\<close> succeeds; the values and the labels it returns have the same
  length; the values are the surviving numbers, each clamped by \<open>Math.max(0, val)\<close>,
  so none is \<open>NaN\<close> and none is below zero. The witness is the input
  \<open>10,-5,30\<close> with labels \<open>A,B,C\<close>, which gives the values 10, 0, 30.
\<close>

theorem parse_equal_counts:
  assumes "length (filter (\<lambda>val. \<not> isNaN val)
                    (map (\<lambda>x. parseFloat (trim x)) (split_comma valueText)))
           = length (split_comma labelText)"
  shows "\<not> hasError (parseInputValues valueText labelText)
       \<and> length (dataValues (parseInputValues valueText labelText))
           = length (labels (parseInputValues valueText labelText))
       \<and> dataValues (parseInputValues valueText labelText)
           = map (mathMax2 (Fin 0))
               (filter (\<lambda>val. \<not> isNaN val)
                  (map (\<lambda>x. parseFloat (trim x)) (split_comma valueText)))
       \<and> labels (parseInputValues valueText labelText) = map trim (split_comma labelText)
       \<and> (\<forall>v \<in> set (dataValues (parseInputValues valueText labelText)).
             \<not> isNaN v \<and> \<not> num_lt v (Fin 0))"
  using assms
  by (auto simp add: parseInputValues_def parse_lists_eq clamp_not_NaN clamp_not_negative
           simp del: mathMax2.simps num_lt.simps)

theorem parse_equal_counts_witness:
  "length (filter (\<lambda>val. \<not> isNaN val)
             (map (\<lambda>x. parseFloat (trim x)) (split_comma ''10,-5,30'')))
     = length (split_comma ''A,B,C'')
   \<and> \<not> hasError (parseInputValues ''10,-5,30'' ''A,B,C'')
   \<and> dataValues (parseInputValues ''10,-5,30'' ''A,B,C'') = [Fin 10, Fin 0, Fin 30]
   \<and> labels (parseInputValues ''10,-5,30'' ''A,B,C'') = [''A'', ''B'', ''C'']"
proof -
  have h: "length (filter (\<lambda>val. \<not> isNaN val)
                     (map (\<lambda>x. parseFloat (trim x)) (split_comma ''10,-5,30'')))
           = length (split_comma ''A,B,C'')"
    by code_simp
  have v: "map (mathMax2 (Fin 0))
             (filter (\<lambda>val. \<not> isNaN val)
                (map (\<lambda>x. parseFloat (trim x)) (split_comma ''10,-5,30'')))
           = [Fin 10, Fin 0, Fin 30]"
    by code_simp
  have l: "map trim (split_comma ''A,B,C'') = [''A'', ''B'', ''C'']"
    by code_simp
  note t = parse_equal_counts [OF h]
  show ?thesis
    using h t unfolding v l by blast
qed


section \<open>Properties of the colour generators\<close>

lemma digit_char_simps:
  "digit_char 0 = CHR ''0''" "digit_char 1 = CHR ''1''" "digit_char 2 = CHR ''2''"
  "digit_char 3 = CHR ''3''" "digit_char 4 = CHR ''4''" "digit_char 5 = CHR ''5''"
  "digit_char 6 = CHR ''6''" "digit_char 7 = CHR ''7''" "digit_char 8 = CHR ''8''"
  "digit_char 9 = CHR ''9''" "digit_char (Suc 0) = CHR ''1''"
  by code_simp+

lemma upt_4: "[0..<4] = [0, 1, 2, 3]"
  by code_simp







text \<open>
  C8, as the code has it: \<open>generateRainbowColors\<close> returns one colour per step; the
  hue of step \<open>i\<close> is \<open>i * 360 / count\<close>, with saturation 70% and lightness 50%; the
  three components are separated by a comma and a space. For a count of 4 the colours
  are \<open>hsl(0, 70%, 50%)\<close>, \<open>hsl(90, 70%, 50%)\<close>, \<open>hsl(180, 70%, 50%)\<close> and
  \<open>hsl(270, 70%, 50%)\<close>.
\<close>

theorem rainbow_colors:
  "length (generateRainbowColors fmt count) = count
   \<and> (\<forall>i<count. generateRainbowColors fmt count ! i
          = ''hsl('' @ numberToString fmt (of_nat (i * 360) / of_nat count) @ '', 70%, 50%)'')
   \<and> generateRainbowColors fmt 4
       = [''hsl(0, 70%, 50%)'', ''hsl(90, 70%, 50%)'', ''hsl(180, 70%, 50%)'',
          ''hsl(270, 70%, 50%)'']"
proof -
  have four: "generateRainbowColors fmt 4
       = [''hsl(0, 70%, 50%)'', ''hsl(90, 70%, 50%)'', ''hsl(180, 70%, 50%)'',
          ''hsl(270, 70%, 50%)'']"
    by (simp add: generateRainbowColors_def rainbow_hue_def numberToString_def intToString_def
          natToString.simps digit_char_simps upt_4)
  have len: "length (generateRainbowColors fmt count) = count"
    by (simp add: generateRainbowColors_def)
  have nth: "\<forall>i<count. generateRainbowColors fmt count ! i
          = ''hsl('' @ numberToString fmt (of_nat (i * 360) / of_nat count) @ '', 70%, 50%)''"
    by (simp add: generateRainbowColors_def rainbow_hue_def)
  show ?thesis
    using four len nth by blast
qed

theorem rainbow_colors_witness:
  "(1::nat) < 4
   \<and> generateRainbowColors whole_only 4 ! 1 = ''hsl(90, 70%, 50%)''"
proof -
  have n: "numberToString whole_only (of_nat (1 * 360) / of_nat 4) = ''90''"
    by (simp add: numberToString_def intToString_def natToString.simps digit_char_simps)
  have lt: "(1::nat) < 4"
    by simp
  have "generateRainbowColors whole_only 4 ! 1
          = ''hsl('' @ numberToString whole_only (of_nat (1 * 360) / of_nat 4) @ '', 70%, 50%)''"
    using lt rainbow_colors [of whole_only 4] by blast
  then show ?thesis
    unfolding n using lt by simp
qed

text \<open>
  C8, as the claim states it, fails: the four colours for a count of 4 are not the
  strings without a space after each comma.
\<close>

theorem rainbow_no_spaces_counterexample:
  "generateRainbowColors whole_only 4
     \<noteq> [''hsl(0,70%,50%)'', ''hsl(90,70%,50%)'', ''hsl(180,70%,50%)'', ''hsl(270,70%,50%)'']"
  by (simp add: generateRainbowColors_def rainbow_hue_def numberToString_def intToString_def
        natToString.simps digit_char_simps upt_4)

lemma custom_pick_nth:
  "xs \<noteq> [] \<Longrightarrow> custom_pick xs i = Some (xs ! (i mod length xs))"
  by (simp add: custom_pick_def index_opt_def)

text \<open>
  C10: in custom mode the palette, the comma-separated tokens of the custom-colours
  text, has at least one entry, so the modulus in \<open>i % customColorList.length\<close> is
  never zero; \<open>generateColors\<close> returns exactly \<open>count\<close> entries, all of them
  strings, and entry \<open>i\<close> is the palette entry at \<open>i\<close> modulo the palette length.
\<close>

theorem custom_palette_cycles:
  assumes "colorMode ctl = ''custom''"
  shows "1 \<le> length (map trim (split_comma (customColors ctl)))
       \<and> (\<exists>cs. generateColors fmt ctl count = Inr (map Some cs)
              \<and> length cs = count
              \<and> (\<forall>i<count. cs ! i = map trim (split_comma (customColors ctl))
                                       ! (i mod length (split_comma (customColors ctl)))))"
proof -
  let ?p = "map trim (split_comma (customColors ctl))"
  have ne: "?p \<noteq> []"
    using split_comma_not_Nil [of "customColors ctl"] by simp
  then have len: "1 \<le> length ?p"
    by (cases ?p) simp_all
  show ?thesis
  proof (cases "count \<le> length ?p")
    case True
    then have "generateColors fmt ctl count = Inr (map Some (take count ?p))"
      using assms by (simp add: generateColors_def)
    moreover have "length (take count ?p) = count"
      using True by simp
    moreover have "\<forall>i<count. take count ?p ! i
                     = ?p ! (i mod length (split_comma (customColors ctl)))"
      using True by simp
    ultimately show ?thesis
      using len by blast
  next
    case False
    let ?cs = "map (\<lambda>i. ?p ! (i mod length ?p)) [0..<count]"
    have "map (custom_pick ?p) [0..<count] = map Some ?cs"
      using custom_pick_nth [OF ne] by simp
    then have "generateColors fmt ctl count = Inr (map Some ?cs)"
      using assms False by (simp add: generateColors_def)
    moreover have "length ?cs = count"
      by simp
    moreover have "\<forall>i<count. ?cs ! i = ?p ! (i mod length (split_comma (customColors ctl)))"
      by simp
    ultimately show ?thesis
      using len by blast
  qed
qed

theorem custom_palette_cycles_witness:
  "colorMode \<lparr>colorMode = ''custom'', primaryColor = ''#3498db'',
              secondaryColor = ''#e74c3c'', customColors = ''#ff0000,#00ff00''\<rparr> = ''custom''
   \<and> generateColors whole_only
        \<lparr>colorMode = ''custom'', primaryColor = ''#3498db'',
         secondaryColor = ''#e74c3c'', customColors = ''#ff0000,#00ff00''\<rparr> 4
       = Inr [Some ''#ff0000'', Some ''#00ff00'', Some ''#ff0000'', Some ''#00ff00'']"
proof -
  let ?ctl = "\<lparr>colorMode = ''custom'', primaryColor = ''#3498db'',
               secondaryColor = ''#e74c3c'', customColors = ''#ff0000,#00ff00''\<rparr>"
  have h: "colorMode ?ctl = ''custom''"
    by simp
  have p: "map trim (split_comma (customColors ?ctl)) = [''#ff0000'', ''#00ff00'']"
    by code_simp
  have l: "length (split_comma (customColors ?ctl)) = 2"
    by code_simp
  obtain cs where run: "generateColors whole_only ?ctl 4 = Inr (map Some cs)"
    and len: "length cs = 4"
    and nth: "\<forall>i<4. cs ! i = map trim (split_comma (customColors ?ctl))
                                ! (i mod length (split_comma (customColors ?ctl)))"
    using custom_palette_cycles [OF h, of whole_only 4] by blast
  have "cs ! 0 = ''#ff0000''" "cs ! 1 = ''#00ff00''" "cs ! 2 = ''#ff0000''" "cs ! 3 = ''#00ff00''"
    using nth unfolding p l by simp_all
  then have "cs = [''#ff0000'', ''#00ff00'', ''#ff0000'', ''#00ff00'']"
    using len by (auto simp add: list_eq_iff_nth_eq less_Suc_eq numeral_eq_Suc)
  then show ?thesis
    using run h by simp
qed

section \<open>Properties of the bar geometry\<close>






lemma widths_drawGraph_bars:
  "map rect_width (drawGraph_bars base bw sp scale cols i x vs) = replicate (length vs) bw"
  by (induction vs arbitrary: i x) (simp_all add: Let_def)

lemma widths_exportSVG_bars:
  "map rect_width (exportSVG_bars base bw sp scale cols i x vs) = replicate (length vs) bw"
  by (induction vs arbitrary: i x) (simp_all add: Let_def)

lemma bars_agree:
  "drawGraph_bars base bw sp scale cols i x vs = exportSVG_bars base bw sp scale cols i x vs"
  by (induction vs arbitrary: i x) (simp_all add: Let_def)

lemma single_colors:
  "colorMode ctl = ''single''
   \<Longrightarrow> generateColors fmt ctl n = Inr (replicate n (Some (primaryColor ctl)))"
  by (simp add: generateColors_def)

text \<open>
  For one to seventy bars the two renderers place the same bars: the width computed by
  \<open>drawGraph\<close> on a 760 by 400 canvas is positive, so its floor of 1 is not applied.
\<close>

lemma renderers_agree_upto_70:
  assumes "0 < length (dataValues parsed)" and "length (dataValues parsed) \<le> 70"
  shows "drawGraph fmt ctl 760 400 (dataValues parsed) (labels parsed) = exportSVG fmt ctl parsed"
proof -
  let ?n = "length (dataValues parsed)"
  have "(of_nat ?n - 1) * (10::rat) \<le> 690"
    using assms by simp
  then have "0 < (760 - 2 * 30 - (of_nat ?n - 1) * (10::rat)) / of_nat ?n"
    using assms by simp
  then have pos: "\<not> (760 - 2 * 30 - (of_nat ?n - 1) * (10::rat)) / of_nat ?n \<le> 0"
    by (simp only: not_le)
  show ?thesis
    using assms pos
    by (simp add: drawGraph_def exportSVG_def Let_def bars_agree split: sum.split)
qed

text \<open>
  C1, at an input the two renderers disagree on: 71 values and 71 labels parse without
  error; on the 760 by 400 canvas \<open>drawGraph\<close> computes a bar width of 0 and raises it
  to 1, while \<open>exportSVG\<close> has no such floor and gives every bar the width 0.
\<close>

theorem svg_bar_width_diverges:
  "parseInputValues (concat (replicate 70 ''1,'') @ ''1'') (concat (replicate 70 ''a,'') @ ''a'')
     = \<lparr>dataValues = replicate 71 (Fin 1), labels = replicate 71 ''a'', hasError = False,
        errorMessage = ''''\<rparr>
   \<and> map_sum id (map rect_width)
       (drawGraph whole_only
          \<lparr>colorMode = ''single'', primaryColor = ''#3498db'', secondaryColor = ''#e74c3c'',
           customColors = ''''\<rparr>
          760 400
          (dataValues (parseInputValues (concat (replicate 70 ''1,'') @ ''1'')
                         (concat (replicate 70 ''a,'') @ ''a'')))
          (labels (parseInputValues (concat (replicate 70 ''1,'') @ ''1'')
                     (concat (replicate 70 ''a,'') @ ''a''))))
       = Inr (replicate 71 1)
   \<and> map_sum id (map rect_width)
       (exportSVG whole_only
          \<lparr>colorMode = ''single'', primaryColor = ''#3498db'', secondaryColor = ''#e74c3c'',
           customColors = ''''\<rparr>
          (parseInputValues (concat (replicate 70 ''1,'') @ ''1'')
             (concat (replicate 70 ''a,'') @ ''a'')))
       = Inr (replicate 71 0)"
proof -
  have p: "parseInputValues (concat (replicate 70 ''1,'') @ ''1'')
             (concat (replicate 70 ''a,'') @ ''a'')
     = \<lparr>dataValues = replicate 71 (Fin 1), labels = replicate 71 ''a'', hasError = False,
        errorMessage = ''''\<rparr>"
    by code_simp
  show ?thesis
    unfolding p
    by (simp add: drawGraph_def exportSVG_def Let_def single_colors widths_drawGraph_bars
          widths_exportSVG_bars)
qed



section \<open>Properties of loadConfiguration\<close>




end
